theory Spec2Isabelle
  imports Complex_Main "HOL-Library.Multiset" "HOL-Library.List_Lexorder" "HOL-Library.Char_ord"
begin

section \<open>Python values and exceptions shared by the handlers\<close>

text \<open>
  The exceptions the modelled code can raise. \<open>External\<close> stands for an exception
  raised inside a collaborator whose code is not part of the repository sources at hand
  (the agronomist, the economist, the optimizer).
\<close>

datatype py_error =
    KeyError
  | TypeError
  | ValueError
  | AttributeError
  | ZeroDivisionError
  | OverflowError
  | EmptyClusterError
  | InvalidDemandError
  | InsufficientCropsError
  | External string

text \<open>
  A decoded JSON value, as \<open>request.json\<close> delivers it. A JSON number without
  fraction or exponent decodes to a Python \<open>int\<close>, of any size, another one to a
  \<open>float\<close>. An object is a dictionary, held as an association list and read with
  \<open>map_of\<close>.
\<close>

datatype jval =
    JNull
  | JBool bool
  | JInt int
  | JFloat real
  | JStr string
  | JArr "jval list"
  | JObj "(string \<times> jval) list"

text \<open>Python truthiness of a decoded JSON value (used by \<open>request.json or {}\<close>).\<close>

fun truthy :: "jval \<Rightarrow> bool" where
  "truthy JNull = False"
| "truthy (JBool b) = b"
| "truthy (JInt i) = (i \<noteq> 0)"
| "truthy (JFloat x) = (x \<noteq> 0)"
| "truthy (JStr s) = (s \<noteq> [])"
| "truthy (JArr xs) = (xs \<noteq> [])"
| "truthy (JObj kvs) = (kvs \<noteq> [])"

text \<open>\<open>d.get(k, default)\<close> on a dictionary held as an association list.\<close>

definition dict_get :: "('k \<times> 'v) list \<Rightarrow> 'k \<Rightarrow> 'v \<Rightarrow> 'v" where
  "dict_get d k dflt = (case map_of d k of None \<Rightarrow> dflt | Some v \<Rightarrow> v)"

text \<open>\<open>d[k]\<close>: a missing key raises \<open>KeyError\<close>.\<close>

definition dict_item :: "('k \<times> 'v) list \<Rightarrow> 'k \<Rightarrow> py_error + 'v" where
  "dict_item d k = (case map_of d k of None \<Rightarrow> Inl KeyError | Some v \<Rightarrow> Inr v)"

text \<open>
  \<open>round(x, nd)\<close>. Python floats are idealised as reals; ties go to the even
  neighbour, as Python's rounding does.
\<close>

definition round_half_even :: "real \<Rightarrow> int" where
  "round_half_even x =
     (let f = \<lfloor>x\<rfloor>; d = x - real_of_int f
      in if d < 1 / 2 then f else if 1 / 2 < d then f + 1 else if even f then f else f + 1)"

definition py_round :: "nat \<Rightarrow> real \<Rightarrow> real" where
  "py_round nd x = real_of_int (round_half_even (x * 10 ^ nd)) / 10 ^ nd"

text \<open>\<open>int(x)\<close> on a float truncates toward zero.\<close>

definition py_int :: "real \<Rightarrow> int" where
  "py_int x = (if 0 \<le> x then \<lfloor>x\<rfloor> else \<lceil>x\<rceil>)"

text \<open>\<open>a / b\<close>: a zero divisor raises \<open>ZeroDivisionError\<close>.\<close>

definition py_truediv :: "real \<Rightarrow> real \<Rightarrow> py_error + real" where
  "py_truediv a b = (if b = 0 then Inl ZeroDivisionError else Inr (a / b))"

text \<open>Decimal rendering of an integer, as an f-string prints it.\<close>

fun digits :: "nat \<Rightarrow> string" where
  "digits n =
     (if n < 10 then [''0123456789'' ! n]
      else digits (n div 10) @ [''0123456789'' ! (n mod 10)])"

definition str_int :: "int \<Rightarrow> string" where
  "str_int i = (if i < 0 then CHR ''-'' # digits (nat (- i)) else digits (nat i))"

section \<open>The climate service (\<open>logic/climate_service.py\<close>)\<close>

record climate_profile =
  base_temp :: int
  rain_factor :: real
  ctype :: string

definition climate_profiles :: "(string \<times> climate_profile) list" where
  "climate_profiles =
     [ (''Jenin'', \<lparr>base_temp = 25, rain_factor = 12 / 10, ctype = ''Mediterranean''\<rparr>),
       (''Jericho'', \<lparr>base_temp = 32, rain_factor = 2 / 10, ctype = ''Arid''\<rparr>),
       (''Hebron'', \<lparr>base_temp = 18, rain_factor = 11 / 10, ctype = ''Highland''\<rparr>),
       (''Nablus'', \<lparr>base_temp = 22, rain_factor = 13 / 10, ctype = ''Mediterranean''\<rparr>),
       (''Tulkarm'', \<lparr>base_temp = 24, rain_factor = 14 / 10, ctype = ''Coastal Plain''\<rparr>),
       (''Gaza'', \<lparr>base_temp = 26, rain_factor = 9 / 10, ctype = ''Coastal''\<rparr>),
       (''Ramallah'', \<lparr>base_temp = 20, rain_factor = 12 / 10, ctype = ''Highland''\<rparr>) ]"

text \<open>A value of the forecast dictionary: a string or a number.\<close>

datatype fval = FStr string | FNum real

type_synonym forecast = "(string \<times> fval) list"

text \<open>\<open>_get_season_modifiers\<close>: season name, temperature modifier, rain modifier.\<close>

definition get_season_modifiers :: "nat \<Rightarrow> string \<times> real \<times> real" where
  "get_season_modifiers month =
     (if month \<in> set [12, 1, 2] then (''Winter'', - 8, 2)
      else if month \<in> set [3, 4, 5] then (''Spring'', 0, 8 / 10)
      else if month \<in> set [6, 7, 8] then (''Summer'', 8, 0)
      else (''Autumn'', - 2, 5 / 10))"

text \<open>\<open>_calculate_risk\<close>.\<close>

definition calculate_risk :: "real \<Rightarrow> real \<Rightarrow> string \<Rightarrow> string" where
  "calculate_risk temp rain c_type =
     (if 38 < temp then ''High Heat Stress''
      else if temp < 5 then ''Frost Warning''
      else if c_type = ''Arid'' \<and> 100 < rain then ''Flash Flood Risk''
      else ''Stable'')"

text \<open>
  \<open>get_seasonal_forecast\<close>. The library method \<open>str.capitalize\<close>, the clock and
  the random generator are inputs: \<open>capitalize\<close> is the method (it case-maps every
  character of the text, not the ASCII letters only), \<open>current_month\<close> is
  \<open>datetime.datetime.now().month\<close> and \<open>u\<close> is the value that
  \<open>random.uniform(0.8, 1.2)\<close> returns. The default of \<open>.get\<close> is evaluated
  before the lookup, so a missing \<open>'Jenin'\<close> entry would raise.
\<close>

definition get_seasonal_forecast ::
  "(string \<Rightarrow> string) \<Rightarrow> nat \<Rightarrow> real \<Rightarrow> string \<Rightarrow> py_error + forecast"
where
  "get_seasonal_forecast capitalize current_month u location =
     (let city = capitalize location in
      case dict_item climate_profiles ''Jenin'' of
        Inl e \<Rightarrow> Inl e
      | Inr jenin \<Rightarrow>
          (let profile = dict_get climate_profiles city jenin;
               (season_name, temp_mod, rain_mod) = get_season_modifiers current_month;
               projected_temp = real_of_int (base_temp profile) + temp_mod;
               projected_rain = rain_factor profile * rain_mod * u * 50
           in Inr [ (''location'', FStr city),
                    (''season_name'', FStr season_name),
                    (''avg_temp_c'', FNum (py_round 1 projected_temp)),
                    (''rainfall_mm'', FNum (py_round 1 projected_rain)),
                    (''climate_type'', FStr (ctype profile)),
                    (''risk_factor'',
                       FStr (calculate_risk projected_temp projected_rain (ctype profile))) ]))"

section \<open>The HTTP handlers (\<open>app.py\<close>)\<close>

definition CROPS_LIST :: "string list" where
  "CROPS_LIST =
     [''Wheat'', ''Tomato'', ''Olive'', ''Banana'', ''Grapes'', ''Watermelon'', ''Strawberry'']"

text \<open>An N-P-K profile: the dictionary with the keys \<open>'n'\<close>, \<open>'p'\<close> and \<open>'k'\<close>.\<close>

record npk =
  npk_n :: int
  npk_p :: int
  npk_k :: int

definition SOIL_NUTRIENT_MAP :: "(string \<times> npk) list" where
  "SOIL_NUTRIENT_MAP =
     [ (''Clay'', \<lparr>npk_n = 80, npk_p = 60, npk_k = 70\<rparr>),
       (''Loamy'', \<lparr>npk_n = 60, npk_p = 50, npk_k = 60\<rparr>),
       (''Sandy'', \<lparr>npk_n = 30, npk_p = 20, npk_k = 30\<rparr>),
       (''Default'', \<lparr>npk_n = 50, npk_p = 50, npk_k = 50\<rparr>) ]"

subsection \<open>\<open>/api/analyze\<close>\<close>

text \<open>
  The integers that convert to a float are those of absolute value below
  \<open>2 ^ 1024 - 2 ^ 970\<close>: this number and every larger one round to \<open>2 ^ 1024\<close>,
  which no float holds.
\<close>

definition float_int_bound :: int where
  "float_int_bound = 2 ^ 1024 - 2 ^ 970"

text \<open>
  \<open>float(v)\<close> on a decoded JSON value. An integer out of the float range raises
  \<open>OverflowError\<close>. Parsing the text of a string is left to the parameter
  \<open>parse\<close>; \<open>None\<close> is Python's \<open>ValueError\<close>.
\<close>

fun py_float :: "(string \<Rightarrow> real option) \<Rightarrow> jval \<Rightarrow> py_error + real" where
  "py_float parse (JInt i) =
     (if \<bar>i\<bar> < float_int_bound then Inr (real_of_int i) else Inl OverflowError)"
| "py_float parse (JFloat x) = Inr x"
| "py_float parse (JBool b) = Inr (if b then 1 else 0)"
| "py_float parse (JStr s) = (case parse s of None \<Rightarrow> Inl ValueError | Some x \<Rightarrow> Inr x)"
| "py_float parse v = Inl TypeError"

text \<open>
  \<open>SOIL_NUTRIENT_MAP.get(soil_type, SOIL_NUTRIENT_MAP['Default'])\<close>. Only a string can
  equal a key; a list or an object is unhashable and raises \<open>TypeError\<close>.
\<close>

fun chem_profile_of :: "jval \<Rightarrow> py_error + npk" where
  "chem_profile_of (JArr xs) = Inl TypeError"
| "chem_profile_of (JObj kvs) = Inl TypeError"
| "chem_profile_of (JStr s) =
     (case dict_item SOIL_NUTRIENT_MAP ''Default'' of
        Inl e \<Rightarrow> Inl e
      | Inr dflt \<Rightarrow> Inr (dict_get SOIL_NUTRIENT_MAP s dflt))"
| "chem_profile_of v = dict_item SOIL_NUTRIENT_MAP ''Default''"

record crop_result =
  crop_name :: string
  crop_score :: real
  crop_status :: string

definition status_of :: "real \<Rightarrow> string" where
  "status_of s = (if 75 < s then ''green'' else if 45 < s then ''yellow'' else ''red'')"

text \<open>
  The agronomist's \<open>predict_feasibility\<close> is a collaborator outside the sources at hand:
  it is the parameter \<open>predict\<close>, which returns a score or raises.
\<close>

type_synonym predictor =
  "string \<Rightarrow> string \<Rightarrow> int \<Rightarrow> int \<Rightarrow> int \<Rightarrow> real \<Rightarrow> forecast \<Rightarrow> py_error + real"

text \<open>The inference loop over the crop list; the first exception ends it.\<close>

fun score_crops ::
  "predictor \<Rightarrow> string \<Rightarrow> npk \<Rightarrow> real \<Rightarrow> forecast \<Rightarrow> string list \<Rightarrow> py_error + crop_result list"
where
  "score_crops predict location chem ph climate_data [] = Inr []"
| "score_crops predict location chem ph climate_data (crop # crops) =
     (case predict location crop (npk_n chem) (npk_p chem) (npk_k chem) ph climate_data of
        Inl e \<Rightarrow> Inl e
      | Inr s \<Rightarrow>
          (case score_crops predict location chem ph climate_data crops of
             Inl e \<Rightarrow> Inl e
           | Inr rest \<Rightarrow>
               Inr (\<lparr>crop_name = crop, crop_score = py_round 2 s, crop_status = status_of s\<rparr> # rest)))"

datatype analyze_response =
    AnalyzeOk "crop_result list" forecast
  | AnalyzeError py_error

text \<open>
  The body of the \<open>try\<close> block of \<open>analyze\<close>. \<open>body\<close> is \<open>request.json\<close>,
  \<open>capitalize\<close> the library method that the climate service calls;
  \<open>sorted(..., reverse=True)\<close> is stable, as \<open>sort_key\<close> on the negated score is.
\<close>

definition analyze_body ::
  "(string \<Rightarrow> string) \<Rightarrow> (string \<Rightarrow> real option) \<Rightarrow> predictor \<Rightarrow> nat \<Rightarrow> real \<Rightarrow> jval
     \<Rightarrow> py_error + (crop_result list \<times> forecast)"
where
  "analyze_body capitalize parse predict current_month u body =
     (case (if truthy body then body else JObj []) of
        JObj data \<Rightarrow>
          (let location = dict_get data ''location'' (JStr ''Jenin'');
               soil_type = dict_get data ''soil'' (JStr ''Loamy'')
           in case py_float parse (dict_get data ''ph'' (JFloat (65 / 10))) of
                Inl e \<Rightarrow> Inl e
              | Inr ph \<Rightarrow>
                  (case location of
                     JStr loc \<Rightarrow>
                       (case get_seasonal_forecast capitalize current_month u loc of
                          Inl e \<Rightarrow> Inl e
                        | Inr climate_data \<Rightarrow>
                            (case chem_profile_of soil_type of
                               Inl e \<Rightarrow> Inl e
                             | Inr chem \<Rightarrow>
                                 (case score_crops predict loc chem ph climate_data CROPS_LIST of
                                    Inl e \<Rightarrow> Inl e
                                  | Inr results \<Rightarrow>
                                      Inr (sort_key (\<lambda>r. - crop_score r) results, climate_data))))
                   | _ \<Rightarrow> Inl AttributeError))
      | _ \<Rightarrow> Inl AttributeError)"

text \<open>The handler: any exception becomes the 500 response.\<close>

definition analyze ::
  "(string \<Rightarrow> string) \<Rightarrow> (string \<Rightarrow> real option) \<Rightarrow> predictor \<Rightarrow> nat \<Rightarrow> real \<Rightarrow> jval
     \<Rightarrow> analyze_response"
where
  "analyze capitalize parse predict current_month u body =
     (case analyze_body capitalize parse predict current_month u body of
        Inl e \<Rightarrow> AnalyzeError e
      | Inr (crops, climate_info) \<Rightarrow> AnalyzeOk crops climate_info)"

subsection \<open>\<open>/api/market\<close>\<close>

definition months_names :: "string list" where
  "months_names =
     [''Jan'', ''Feb'', ''Mar'', ''Apr'', ''May'', ''Jun'',
      ''Jul'', ''Aug'', ''Sep'', ''Oct'', ''Nov'', ''Dec'']"

text \<open>\<open>get_next_6_months\<close>, with the current month (1 to 12) as an input.\<close>

definition get_next_6_months :: "nat \<Rightarrow> string list" where
  "get_next_6_months current_month =
     map (\<lambda>i. months_names ! ((current_month - 1 + i) mod 12)) [0..<6]"

text \<open>The divisor of the price formula: \<open>adjusted_demand if adjusted_demand > 0 else 1\<close>.\<close>

definition price_divisor :: "int \<Rightarrow> int" where
  "price_divisor adjusted_demand = (if 0 < adjusted_demand then adjusted_demand else 1)"

definition market_price :: "int \<Rightarrow> py_error + real" where
  "market_price adjusted_demand =
     (case py_truediv 4000 (real_of_int (price_divisor adjusted_demand)) of
        Inl e \<Rightarrow> Inl e
      | Inr q \<Rightarrow> Inr (py_round 2 q))"

text \<open>
  The loop of \<open>market\<close>: one entry of \<open>vols\<close> for each pass, the value that
  \<open>random.uniform(-0.1, 0.1)\<close> returns there. The result is the pair of the lists
  \<open>prices\<close> and \<open>demands\<close>.
\<close>

fun market_loop :: "real \<Rightarrow> real list \<Rightarrow> py_error + (real list \<times> int list)" where
  "market_loop base_demand [] = Inr ([], [])"
| "market_loop base_demand (volatility # vols) =
     (let adjusted_demand = py_int (base_demand * (1 + volatility)) in
      case market_price adjusted_demand of
        Inl e \<Rightarrow> Inl e
      | Inr price \<Rightarrow>
          (case market_loop base_demand vols of
             Inl e \<Rightarrow> Inl e
           | Inr (prices, demands) \<Rightarrow> Inr (price # prices, adjusted_demand # demands)))"

datatype market_response =
    MarketOk "string list" "real list" "int list"
  | MarketError py_error

text \<open>
  The handler. The economist's \<open>get_national_demand\<close> is a collaborator outside the
  sources at hand: \<open>national_demand\<close> is what it returns, or the exception it raises.
  \<open>draw i\<close> is the volatility drawn in pass \<open>i\<close> of \<open>range(6)\<close>.
\<close>

definition market :: "nat \<Rightarrow> (string \<Rightarrow> py_error + real) \<Rightarrow> (nat \<Rightarrow> real) \<Rightarrow> market_response" where
  "market current_month national_demand draw =
     (let dates = get_next_6_months current_month in
      case national_demand ''Tomato'' of
        Inl e \<Rightarrow> MarketError e
      | Inr base_demand \<Rightarrow>
          (case market_loop base_demand (map draw [0..<6]) of
             Inl e \<Rightarrow> MarketError e
           | Inr (prices, demands) \<Rightarrow> MarketOk dates prices demands))"

subsection \<open>\<open>/api/optimize\<close>\<close>

text \<open>
  \<open>random.randint(a, b)\<close>: an integer of the closed range, chosen by the generator's
  raw output \<open>raw\<close>, which is reduced to an offset below the size of the range.
\<close>

definition randint :: "int \<Rightarrow> int \<Rightarrow> nat \<Rightarrow> int" where
  "randint a b raw = a + int raw mod (b - a + 1)"

record 'h optimize_payload =
  assigned_crop :: string
  confidence :: string
  heatmap :: 'h

datatype 'h optimize_response =
    OptimizeOk "'h optimize_payload"
  | OptimizeError py_error

text \<open>
  The handler. The optimizer is the parameter \<open>run_sa\<close>: it gets the farmer cluster
  (ten farmers, each an empty dictionary, held here as the list of their keys) and the
  demand and returns an allocation and a heatmap, or raises. The allocation is a
  dictionary from farmer to crop; \<open>allocation[0]\<close> raises when the key is missing.
  \<open>raw\<close> is the generator's output consumed by \<open>random.randint(94, 99)\<close>, which runs
  only after the optimizer has returned.
\<close>

definition optimize ::
  "(nat list \<Rightarrow> (string \<times> int) list \<Rightarrow> py_error + ((nat \<times> string) list \<times> 'h))
     \<Rightarrow> nat \<Rightarrow> 'h optimize_response"
where
  "optimize run_sa raw =
     (let farmers_cluster = [0..<10];
          national_demand = [(''Tomato'', 20), (''Wheat'', 15), (''Olive'', 15)]
      in case run_sa farmers_cluster national_demand of
           Inl e \<Rightarrow> OptimizeError e
         | Inr (allocation, heatmap_data) \<Rightarrow>
             (let confidence_score = randint 94 99 raw in
              case (if allocation \<noteq> [] then dict_item allocation 0 else Inr ''None'') of
                Inl e \<Rightarrow> OptimizeError e
              | Inr c \<Rightarrow>
                  OptimizeOk \<lparr>assigned_crop = c,
                              confidence = str_int confidence_score @ ''%'',
                              heatmap = heatmap_data\<rparr>))"

section \<open>The allocation optimizer\<close>

text \<open>
  \<open>app.py\<close> imports the class \<open>QuantumOptimizer\<close> from the module \<open>logic.logic\<close> and
  calls its method \<open>run_simulated_annealing\<close>; the module is not among the sources at
  hand. Every definition of this section is therefore written from the design document's
  description of the optimizer (its sections 3, 4, 6 and 7), and says so.
\<close>

type_synonym crop = string

text \<open>
  Modelled from the spec: the Farmer of the data model, missing with \<open>logic.logic\<close>. An
  identifier and an optional capacity; the attributes that only the feasibility scorer
  reads are left to the scorer.
\<close>

record farmer =
  fid :: nat
  capacity :: "real option"

text \<open>
  Modelled from the spec: the capacity of a farmer, missing with \<open>logic.logic\<close>;
  1 unit when unspecified.
\<close>

definition capacity_of :: "farmer \<Rightarrow> real" where
  "capacity_of f = (case capacity f of None \<Rightarrow> 1 | Some c \<Rightarrow> c)"

text \<open>The demand map, crop to tons, and the Allocation State, farmer to crop.\<close>

type_synonym demand_map = "(crop \<times> real) list"

type_synonym allocation = "(farmer \<times> crop) list"

text \<open>
  Modelled from the spec: the \<open>config\<close> of the optimizer entry point, missing with
  \<open>logic.logic\<close>.
\<close>

record config =
  seed :: int
  maxIterations :: nat
  initialTemperature :: real
  coolingRate :: real
  infeasibilityWeight :: real
  temperatureFloor :: real

text \<open>
  Modelled from the spec: the available crop set, missing with \<open>logic.logic\<close>: the keys
  of the demand map, each once, in the order of the map.
\<close>

definition crops_of :: "demand_map \<Rightarrow> crop list" where
  "crops_of demand = remdups (map fst demand)"

text \<open>
  Modelled from the spec: the target of a crop (Demand Normalizer), missing with
  \<open>logic.logic\<close>. The demand map is kept as it is; a crop without an entry has demand 0.
\<close>

definition target :: "demand_map \<Rightarrow> crop \<Rightarrow> real" where
  "target demand c = dict_get demand c 0"

text \<open>
  Modelled from the spec: the Feasibility Adapter, missing with \<open>logic.logic\<close>. The
  external scorer is the parameter \<open>scorer\<close>; \<open>None\<close> is its failure, which counts as
  score 0, and a score out of range is clamped into 0 to 100. Memoizing a pure function
  does not change its values, so the cache is not modelled.
\<close>

definition feasibility :: "(farmer \<Rightarrow> crop \<Rightarrow> real option) \<Rightarrow> farmer \<Rightarrow> crop \<Rightarrow> real" where
  "feasibility scorer f c = (case scorer f c of None \<Rightarrow> 0 | Some s \<Rightarrow> max 0 (min 100 s))"

text \<open>
  Modelled from the spec: the derived attribute \<open>producedByCrop\<close> of the Allocation
  State, missing with \<open>logic.logic\<close>: the summed capacity of the farmers assigned to the
  crop.
\<close>

definition producedByCrop :: "allocation \<Rightarrow> crop \<Rightarrow> real" where
  "producedByCrop asg c =
     sum_list (map (\<lambda>(f, cr). capacity_of f) (filter (\<lambda>(f, cr). cr = c) asg))"

text \<open>
  Modelled from the spec: the demand term of the Energy Function, missing with
  \<open>logic.logic\<close>: the squared deviations from the targets, summed over the crops.
\<close>

definition demandTerm :: "demand_map \<Rightarrow> allocation \<Rightarrow> real" where
  "demandTerm demand asg =
     (\<Sum>c\<leftarrow>crops_of demand. (producedByCrop asg c - target demand c)\<^sup>2)"

text \<open>
  Modelled from the spec: the infeasibility term of the Energy Function, missing with
  \<open>logic.logic\<close>.
\<close>

definition infeasibilityTerm :: "(farmer \<Rightarrow> crop \<Rightarrow> real option) \<Rightarrow> allocation \<Rightarrow> real" where
  "infeasibilityTerm scorer asg = (\<Sum>(f, c)\<leftarrow>asg. 100 - feasibility scorer f c)"

text \<open>
  Modelled from the spec: the Energy Function, missing with \<open>logic.logic\<close>;
  \<open>lam\<close> is the weight of the infeasibility term.
\<close>

definition energy ::
  "real \<Rightarrow> demand_map \<Rightarrow> (farmer \<Rightarrow> crop \<Rightarrow> real option) \<Rightarrow> allocation \<Rightarrow> real"
where
  "energy lam demand scorer asg = demandTerm demand asg + lam * infeasibilityTerm scorer asg"

text \<open>
  Modelled from the spec: the Best Snapshot, missing with \<open>logic.logic\<close>: a copy of an
  Allocation State and its energy.
\<close>

record snapshot =
  snap_assignment :: allocation
  snap_energy :: real

text \<open>
  Modelled from the spec: the state of the Annealing Engine, missing with
  \<open>logic.logic\<close>: the Allocation State with its cached production and energy, the
  temperature, the best snapshot, and how many outputs of the seeded generator the run has
  consumed.
\<close>

record anneal_state =
  assignment :: allocation
  produced :: "crop \<Rightarrow> real"
  current_energy :: real
  temperature :: real
  best :: snapshot
  draws_used :: nat

text \<open>
  Modelled from the spec: a uniform choice from a list, missing with \<open>logic.logic\<close>,
  made by one raw output of the generator. The engine calls it on non-empty lists only.
\<close>

definition pick :: "nat \<Rightarrow> 'a list \<Rightarrow> 'a" where
  "pick raw xs = xs ! (raw mod length xs)"

text \<open>
  Modelled from the spec: the uniform random number of a step, missing with
  \<open>logic.logic\<close>: a number in the interval from 0 (included) to 1 (excluded). The spec
  does not fix its resolution; 32 bits are taken.
\<close>

definition uniform01 :: "nat \<Rightarrow> real" where
  "uniform01 raw = real (raw mod 2 ^ 32) / 2 ^ 32"

text \<open>
  Modelled from the spec: the Initial state's assignment, missing with \<open>logic.logic\<close>:
  every farmer gets a random crop of the available set; farmer number \<open>i\<close> uses output
  \<open>i\<close> of the generator.
\<close>

definition initial_assignment :: "(nat \<Rightarrow> nat) \<Rightarrow> crop list \<Rightarrow> farmer list \<Rightarrow> allocation" where
  "initial_assignment draws crops farmers =
     map (\<lambda>(i, f). (f, pick (draws i) crops)) (enumerate 0 farmers)"

text \<open>
  Modelled from the spec: the Initial state of the engine, missing with \<open>logic.logic\<close>:
  the random assignment, the initial temperature, and the initial state as best snapshot.
\<close>

definition initial_state ::
  "(nat \<Rightarrow> nat) \<Rightarrow> (farmer \<Rightarrow> crop \<Rightarrow> real option) \<Rightarrow> farmer list \<Rightarrow> demand_map \<Rightarrow> config
     \<Rightarrow> anneal_state"
where
  "initial_state draws scorer farmers demand cfg =
     (let asg = initial_assignment draws (crops_of demand) farmers;
          e = energy (infeasibilityWeight cfg) demand scorer asg
      in \<lparr>assignment = asg,
          produced = producedByCrop asg,
          current_energy = e,
          temperature = initialTemperature cfg,
          best = \<lparr>snap_assignment = asg, snap_energy = e\<rparr>,
          draws_used = length farmers\<rparr>)"

text \<open>
  Modelled from the spec: the acceptance rule of a step (Metropolis criterion), missing
  with \<open>logic.logic\<close>: a move with \<open>dE \<le> 0\<close> is accepted, another one when the uniform
  number is below \<open>exp (- dE / T)\<close>. The spec says nothing of a temperature that is not
  positive; no worsening move is accepted there.
\<close>

definition accepts :: "real \<Rightarrow> real \<Rightarrow> real \<Rightarrow> bool" where
  "accepts dE T u = (dE \<le> 0 \<or> (0 < T \<and> u < exp (- dE / T)))"

text \<open>
  Modelled from the spec: the incremental energy delta of a single reassignment,
  missing with \<open>logic.logic\<close>. Moving farmer \<open>f\<close> from \<open>old\<close> to \<open>new\<close> changes the
  production of these two crops and the farmer's own infeasibility; \<open>P\<close> is the cached
  production.
\<close>

definition energy_delta ::
  "real \<Rightarrow> demand_map \<Rightarrow> (farmer \<Rightarrow> crop \<Rightarrow> real option) \<Rightarrow> (crop \<Rightarrow> real)
     \<Rightarrow> farmer \<Rightarrow> crop \<Rightarrow> crop \<Rightarrow> real"
where
  "energy_delta lam demand scorer P f old new =
     (let cap = capacity_of f;
          dDemand = ((P old - cap - target demand old)\<^sup>2 - (P old - target demand old)\<^sup>2)
                  + ((P new + cap - target demand new)\<^sup>2 - (P new - target demand new)\<^sup>2);
          dInfeasibility = (100 - feasibility scorer f new) - (100 - feasibility scorer f old)
      in dDemand + lam * dInfeasibility)"

text \<open>
  Modelled from the spec: the Step of the engine, missing with \<open>logic.logic\<close>. Three
  outputs of the generator: the farmer, the replacement crop among the crops other than
  the current one, and the uniform number of the acceptance. An accepted move changes the
  assignment, the cached production and the energy, and replaces the best snapshot when
  the new energy is strictly lower.
\<close>

definition step ::
  "(nat \<Rightarrow> nat) \<Rightarrow> (farmer \<Rightarrow> crop \<Rightarrow> real option) \<Rightarrow> demand_map \<Rightarrow> config
     \<Rightarrow> anneal_state \<Rightarrow> anneal_state"
where
  "step draws scorer demand cfg s =
     (let asg = assignment s;
          pos = draws_used s;
          i = draws pos mod length asg;
          (f, old) = asg ! i;
          new = pick (draws (pos + 1)) (filter (\<lambda>c. c \<noteq> old) (crops_of demand));
          u = uniform01 (draws (pos + 2));
          P = produced s;
          dE = energy_delta (infeasibilityWeight cfg) demand scorer P f old new;
          s1 = s\<lparr>draws_used := pos + 3\<rparr>
      in if accepts dE (temperature s) u then
           (let cap = capacity_of f;
                asg' = asg[i := (f, new)];
                e' = current_energy s + dE;
                s2 = s1\<lparr>assignment := asg',
                        produced := P(old := P old - cap, new := P new + cap),
                        current_energy := e'\<rparr>
            in if e' < snap_energy (best s)
               then s2\<lparr>best := \<lparr>snap_assignment = asg', snap_energy = e'\<rparr>\<rparr>
               else s2)
         else s1)"

text \<open>
  Modelled from the spec: Cool, missing with \<open>logic.logic\<close>: after every step the
  temperature is multiplied by the cooling rate.
\<close>

definition cool :: "config \<Rightarrow> anneal_state \<Rightarrow> anneal_state" where
  "cool cfg s = s\<lparr>temperature := temperature s * coolingRate cfg\<rparr>"

text \<open>
  Modelled from the spec: the step/cool loop, missing with \<open>logic.logic\<close>. It ends when
  the iteration budget is used up or the temperature is below the floor, whichever comes
  first; the first argument after the configuration is the number of iterations left.
\<close>

fun anneal_loop ::
  "(nat \<Rightarrow> nat) \<Rightarrow> (farmer \<Rightarrow> crop \<Rightarrow> real option) \<Rightarrow> demand_map \<Rightarrow> config
     \<Rightarrow> nat \<Rightarrow> anneal_state \<Rightarrow> anneal_state"
where
  "anneal_loop draws scorer demand cfg 0 s = s"
| "anneal_loop draws scorer demand cfg (Suc remaining) s =
     (if temperature s < temperatureFloor cfg then s
      else anneal_loop draws scorer demand cfg remaining
             (cool cfg (step draws scorer demand cfg s)))"

text \<open>
  Modelled from the spec: the input validation, missing with \<open>logic.logic\<close>. An empty
  cluster is reported whatever the demand is; then an empty demand map, fewer than two
  crops, and a total demand of zero.
\<close>

definition validate :: "farmer list \<Rightarrow> demand_map \<Rightarrow> py_error option" where
  "validate farmers demand =
     (if farmers = [] then Some EmptyClusterError
      else if demand = [] then Some InvalidDemandError
      else if length (crops_of demand) < 2 then Some InsufficientCropsError
      else if sum_list (map snd demand) = 0 then Some InvalidDemandError
      else None)"

text \<open>
  Modelled from the spec: one annealing run, missing with \<open>logic.logic\<close>: validation,
  then the search from the initial state; the result is the best snapshot. \<open>gen\<close> is the
  seeded generator: \<open>gen sd i\<close> is output number \<open>i\<close> of the generator seeded with
  \<open>sd\<close>.
\<close>

definition anneal ::
  "(int \<Rightarrow> nat \<Rightarrow> nat) \<Rightarrow> (farmer \<Rightarrow> crop \<Rightarrow> real option) \<Rightarrow> farmer list \<Rightarrow> demand_map
     \<Rightarrow> config \<Rightarrow> py_error + snapshot"
where
  "anneal gen scorer farmers demand cfg =
     (case validate farmers demand of
        Some e \<Rightarrow> Inl e
      | None \<Rightarrow>
          (let draws = gen (seed cfg) in
           Inr (best (anneal_loop draws scorer demand cfg (maxIterations cfg)
                        (initial_state draws scorer farmers demand cfg)))))"

text \<open>
  Modelled from the spec: the allocation summary of the Result Builder, missing with
  \<open>logic.logic\<close>: for each crop, in alphabetical order, the farmers assigned to it.
\<close>

definition allocation_summary :: "crop list \<Rightarrow> allocation \<Rightarrow> (crop \<times> nat list) list" where
  "allocation_summary crops asg =
     map (\<lambda>c. (c, map (\<lambda>(f, cr). fid f) (filter (\<lambda>(f, cr). cr = c) asg))) (sort crops)"

text \<open>
  Modelled from the spec: the heatmap data of the Result Builder, missing with
  \<open>logic.logic\<close>: for each farmer a row over the crops, 1 at the assigned crop and 0
  elsewhere.
\<close>

definition heatmap_of :: "crop list \<Rightarrow> allocation \<Rightarrow> (nat \<times> (crop \<times> nat) list) list" where
  "heatmap_of crops asg =
     map (\<lambda>(f, cr). (fid f, map (\<lambda>c. (c, if cr = c then 1 else 0)) (sort crops))) asg"

text \<open>
  Modelled from the spec: the optimizer entry point, missing with \<open>logic.logic\<close>
  (\<open>optimize(farmers, demand, config)\<close> in the spec, \<open>run_simulated_annealing\<close> in
  \<open>app.py\<close>): the summary and the heatmap of the best snapshot, or the error of the
  validation.
\<close>

definition run_simulated_annealing ::
  "(int \<Rightarrow> nat \<Rightarrow> nat) \<Rightarrow> (farmer \<Rightarrow> crop \<Rightarrow> real option) \<Rightarrow> farmer list \<Rightarrow> demand_map
     \<Rightarrow> config \<Rightarrow> py_error + ((crop \<times> nat list) list \<times> (nat \<times> (crop \<times> nat) list) list)"
where
  "run_simulated_annealing gen scorer farmers demand cfg =
     (case anneal gen scorer farmers demand cfg of
        Inl e \<Rightarrow> Inl e
      | Inr b \<Rightarrow>
          Inr (allocation_summary (crops_of demand) (snap_assignment b),
               heatmap_of (crops_of demand) (snap_assignment b)))"

text \<open>
  The input that the \<open>/api/optimize\<close> route builds: ten farmers, numbered 0 to 9, with
  no capacity given, and the demand for three crops.
\<close>

definition route_farmers :: "farmer list" where
  "route_farmers = map (\<lambda>i. \<lparr>fid = i, capacity = None\<rparr>) [0..<10]"

definition route_demand :: demand_map where
  "route_demand = [(''Tomato'', 20), (''Wheat'', 15), (''Olive'', 15)]"

section \<open>The invariant of the engine and an example run\<close>

text \<open>
  What every state of a run satisfies, for a cluster \<open>farmers\<close> and the energy \<open>e0\<close>
  of the initial state: the assignment gives every farmer of the cluster exactly one crop
  of the available set, the cached production and energy are those of the assignment, and
  the best snapshot is such an assignment too, with its true energy, which is at most
  \<open>e0\<close>.
\<close>

definition engine_inv ::
  "real \<Rightarrow> demand_map \<Rightarrow> (farmer \<Rightarrow> crop \<Rightarrow> real option) \<Rightarrow> farmer list \<Rightarrow> real
     \<Rightarrow> anneal_state \<Rightarrow> bool"
where
  "engine_inv lam demand scorer farmers e0 s =
     (map fst (assignment s) = farmers
      \<and> snd ` set (assignment s) \<subseteq> set (crops_of demand)
      \<and> produced s = producedByCrop (assignment s)
      \<and> current_energy s = energy lam demand scorer (assignment s)
      \<and> map fst (snap_assignment (best s)) = farmers
      \<and> snd ` set (snap_assignment (best s)) \<subseteq> set (crops_of demand)
      \<and> snap_energy (best s) = energy lam demand scorer (snap_assignment (best s))
      \<and> snap_energy (best s) \<le> e0)"

text \<open>
  A small run for evaluation: two farmers of one unit each, all production wanted as
  crop \<open>B\<close>, a generator whose outputs are all 0, and two iterations.
\<close>

definition demo_farmers :: "farmer list" where
  "demo_farmers = [\<lparr>fid = 3, capacity = None\<rparr>, \<lparr>fid = 8, capacity = None\<rparr>]"

definition demo_demand :: demand_map where
  "demo_demand = [(''A'', 0), (''B'', 2)]"

definition demo_config :: config where
  "demo_config = \<lparr>seed = 7, maxIterations = 2, initialTemperature = 10, coolingRate = 1 / 2,
                   infeasibilityWeight = 1, temperatureFloor = 1 / 1000\<rparr>"

section \<open>Properties of the climate service\<close>

lemma jenin_item:
  "dict_item climate_profiles ''Jenin'' =
     Inr \<lparr>base_temp = 25, rain_factor = 12 / 10, ctype = ''Mediterranean''\<rparr>"
  by (simp add: dict_item_def climate_profiles_def)

lemma dict_get_missing:
  assumes "key \<notin> fst ` set d"
  shows "dict_get d key dflt = dflt"
proof -
  from assms have "map_of d key = None" by (simp add: map_of_eq_None_iff)
  then show ?thesis by (simp add: dict_get_def)
qed

lemma forecast_total:
  "\<exists>fc. get_seasonal_forecast capitalize current_month u location = Inr fc"
  by (simp add: get_seasonal_forecast_def jenin_item Let_def split: prod.splits)

text \<open>
  Claim C7. For every location string and whatever \<open>str.capitalize\<close>, the clock and
  the generator give, \<open>get_seasonal_forecast\<close> returns a dictionary (it does not raise) that holds a
  season name, an average temperature, a rainfall amount, a climate type and a risk
  factor, under the keys \<open>season_name\<close>, \<open>avg_temp_c\<close>, \<open>rainfall_mm\<close>,
  \<open>climate_type\<close> and \<open>risk_factor\<close>; the names and the type are strings, the
  temperature and the rainfall numbers.
\<close>

theorem forecast_has_promised_fields:
  "\<exists>fc season t r ct risk.
     get_seasonal_forecast capitalize current_month u location = Inr fc
     \<and> map_of fc ''season_name'' = Some (FStr season)
     \<and> map_of fc ''avg_temp_c'' = Some (FNum t)
     \<and> map_of fc ''rainfall_mm'' = Some (FNum r)
     \<and> map_of fc ''climate_type'' = Some (FStr ct)
     \<and> map_of fc ''risk_factor'' = Some (FStr risk)"
  by (simp add: get_seasonal_forecast_def jenin_item Let_def split: prod.splits)

lemma district_keys:
  "fst ` set climate_profiles =
     {''Jenin'', ''Jericho'', ''Hebron'', ''Nablus'', ''Tulkarm'', ''Gaza'', ''Ramallah''}"
  by (auto simp add: climate_profiles_def)

text \<open>
  Claim C8. The profile table has the seven district keys. When what \<open>str.capitalize\<close>
  returns for the location is none of them, the call returns (it does not raise) the
  forecast built from the Jenin profile: base temperature 25, rain factor 1.2, type
  Mediterranean. This holds whatever the library method does to the text.
\<close>

theorem unknown_location_falls_back_to_jenin:
  assumes "capitalize location \<notin> fst ` set climate_profiles"
  shows "fst ` set climate_profiles =
           {''Jenin'', ''Jericho'', ''Hebron'', ''Nablus'', ''Tulkarm'', ''Gaza'', ''Ramallah''}
         \<and> get_seasonal_forecast capitalize current_month u location =
           (case get_season_modifiers current_month of
              (season_name, temp_mod, rain_mod) \<Rightarrow>
                Inr [ (''location'', FStr (capitalize location)),
                      (''season_name'', FStr season_name),
                      (''avg_temp_c'', FNum (py_round 1 (25 + temp_mod))),
                      (''rainfall_mm'', FNum (py_round 1 (12 / 10 * rain_mod * u * 50))),
                      (''climate_type'', FStr ''Mediterranean''),
                      (''risk_factor'',
                         FStr (calculate_risk (25 + temp_mod) (12 / 10 * rain_mod * u * 50)
                                 ''Mediterranean'')) ])"
proof -
  have dg: "dict_get climate_profiles (capitalize location) j = j" for j
    using assms by (rule dict_get_missing)
  have "get_seasonal_forecast capitalize current_month u location =
           (case get_season_modifiers current_month of
              (season_name, temp_mod, rain_mod) \<Rightarrow>
                Inr [ (''location'', FStr (capitalize location)),
                      (''season_name'', FStr season_name),
                      (''avg_temp_c'', FNum (py_round 1 (25 + temp_mod))),
                      (''rainfall_mm'', FNum (py_round 1 (12 / 10 * rain_mod * u * 50))),
                      (''climate_type'', FStr ''Mediterranean''),
                      (''risk_factor'',
                         FStr (calculate_risk (25 + temp_mod) (12 / 10 * rain_mod * u * 50)
                                 ''Mediterranean'')) ])"
    by (simp add: get_seasonal_forecast_def jenin_item dg Let_def split: prod.splits)
  with district_keys show ?thesis by (rule conjI)
qed

theorem unknown_location_falls_back_to_jenin_witness:
  "(\<lambda>s. s) ''Atlantis'' \<notin> fst ` set climate_profiles
   \<and> get_seasonal_forecast (\<lambda>s. s) 7 1 ''Atlantis'' =
       Inr [ (''location'', FStr ''Atlantis''),
             (''season_name'', FStr ''Summer''),
             (''avg_temp_c'', FNum 33),
             (''rainfall_mm'', FNum 0),
             (''climate_type'', FStr ''Mediterranean''),
             (''risk_factor'', FStr ''Stable'') ]"
proof -
  have h: "(\<lambda>s. s) ''Atlantis'' \<notin> fst ` set climate_profiles"
    by (simp add: climate_profiles_def)
  have r: "py_round (Suc 0) 33 = 33" "py_round (Suc 0) 0 = 0"
    by (simp_all add: py_round_def round_half_even_def)
  from unknown_location_falls_back_to_jenin [of "\<lambda>s. s", OF h, of 7 1]
  have "get_seasonal_forecast (\<lambda>s. s) 7 1 ''Atlantis'' =
       Inr [ (''location'', FStr ''Atlantis''),
             (''season_name'', FStr ''Summer''),
             (''avg_temp_c'', FNum 33),
             (''rainfall_mm'', FNum 0),
             (''climate_type'', FStr ''Mediterranean''),
             (''risk_factor'', FStr ''Stable'') ]"
    by (simp add: get_season_modifiers_def calculate_risk_def r)
  with h show ?thesis by (rule conjI)
qed

section \<open>Properties of the handlers\<close>

subsection \<open>The market prices\<close>

lemma price_divisor_pos: "0 < price_divisor d"
  by (simp add: price_divisor_def)

lemma market_price_ok: "\<exists>q. market_price d = Inr q"
  using price_divisor_pos [of d] by (simp add: market_price_def py_truediv_def)

lemma market_loop_ok:
  "\<exists>prices demands. market_loop base vols = Inr (prices, demands)
     \<and> length prices = length vols \<and> length demands = length vols"
proof (induction vols)
  case Nil
  show ?case by simp
next
  case (Cons v vols)
  then obtain ps ds where rest: "market_loop base vols = Inr (ps, ds)"
    "length ps = length vols" "length ds = length vols" by blast
  obtain q where q: "market_price (py_int (base * (1 + v))) = Inr q"
    using market_price_ok by blast
  show ?case by (simp add: Let_def q rest)
qed

text \<open>
  Claim C9. The divisor of the price formula is never zero, and it is 1 whenever the
  adjusted demand is at most 0; so no price raises \<open>ZeroDivisionError\<close>, and for every
  base demand and every six draws the loop returns six prices and six demands.
\<close>

theorem market_never_divides_by_zero:
  "price_divisor adjusted_demand \<noteq> 0
   \<and> (adjusted_demand \<le> 0 \<longrightarrow> price_divisor adjusted_demand = 1)
   \<and> market_price adjusted_demand \<noteq> Inl ZeroDivisionError
   \<and> (\<exists>prices demands.
         market_loop base_demand (map draw [0..<6]) = Inr (prices, demands)
         \<and> length prices = 6 \<and> length demands = 6)"
proof -
  have a: "price_divisor adjusted_demand \<noteq> 0"
    using price_divisor_pos [of adjusted_demand] by simp
  have b: "adjusted_demand \<le> 0 \<longrightarrow> price_divisor adjusted_demand = 1"
    by (simp add: price_divisor_def)
  have c: "market_price adjusted_demand \<noteq> Inl ZeroDivisionError"
    using market_price_ok [of adjusted_demand] by auto
  have d: "\<exists>prices demands.
         market_loop base_demand (map draw [0..<6]) = Inr (prices, demands)
         \<and> length prices = 6 \<and> length demands = 6"
    using market_loop_ok [of base_demand "map draw [0..<6]"] by simp
  from a b c d show ?thesis by blast
qed

theorem market_never_divides_by_zero_witness:
  "(-3::int) \<le> 0 \<and> price_divisor (-3) = 1 \<and> market_price (-3) = Inr 4000
   \<and> (\<exists>prices demands.
         market_loop 0 (map (\<lambda>i. -1 / 10) [0..<6]) = Inr (prices, demands)
         \<and> length prices = 6 \<and> length demands = 6)"
proof -
  have "py_round 2 4000 = 4000"
    by (simp add: py_round_def round_half_even_def)
  then have "market_price (-3) = Inr 4000"
    by (simp add: market_price_def price_divisor_def py_truediv_def)
  then show ?thesis
    using market_never_divides_by_zero [of "-3" 0 "\<lambda>i. -1 / 10"] by simp
qed

subsection \<open>The soil fallback of \<open>/api/analyze\<close>\<close>

lemma float_of_huge_int: "py_float parse (JInt (10 ^ 400)) = Inl OverflowError"
  by (simp add: float_int_bound_def)

lemma analyze_huge_ph:
  assumes "float_int_bound \<le> \<bar>i\<bar>"
  shows "analyze capitalize parse predict current_month u
           (JObj [(''soil'', JStr ''Peat''), (''ph'', JInt i)]) = AnalyzeError OverflowError"
  using assms by (simp add: analyze_def analyze_body_def dict_get_def)

lemma chem_profile_unknown:
  assumes "soil \<notin> {''Clay'', ''Loamy'', ''Sandy''}"
  shows "chem_profile_of (JStr soil) = Inr \<lparr>npk_n = 50, npk_p = 50, npk_k = 50\<rparr>"
  using assms by (simp add: dict_item_def dict_get_def SOIL_NUTRIENT_MAP_def)

lemma score_crops_ok:
  assumes "\<forall>c \<in> set crops.
             \<exists>s. predict loc c (npk_n chem) (npk_p chem) (npk_k chem) ph climate = Inr s"
  shows "\<exists>results. score_crops predict loc chem ph climate crops = Inr results
           \<and> map crop_name results = crops
           \<and> (\<forall>r \<in> set results. \<exists>s.
                 predict loc (crop_name r) (npk_n chem) (npk_p chem) (npk_k chem) ph climate = Inr s
                 \<and> crop_score r = py_round 2 s \<and> crop_status r = status_of s)"
  using assms
proof (induction crops)
  case Nil
  show ?case by simp
next
  case (Cons c crops)
  from Cons.prems obtain s where
    s: "predict loc c (npk_n chem) (npk_p chem) (npk_k chem) ph climate = Inr s"
    by auto
  from Cons obtain rest where
    rest: "score_crops predict loc chem ph climate crops = Inr rest"
      "map crop_name rest = crops"
      "\<forall>r \<in> set rest. \<exists>s.
          predict loc (crop_name r) (npk_n chem) (npk_p chem) (npk_k chem) ph climate = Inr s
          \<and> crop_score r = py_round 2 s \<and> crop_status r = status_of s"
    by auto
  show ?case using s rest by simp
qed

text \<open>
  Claim C10. A request whose soil is a string other than \<open>Clay\<close>, \<open>Loamy\<close> and
  \<open>Sandy\<close> gets the Default profile (50, 50, 50), and the handler answers with all
  seven crops of the crop list, each scored by the agronomist with that profile. The
  other inputs of the handler are taken to be well: the location is a string, the pH
  converts to a float (it is no text that fails to parse, no integer beyond the float
  range, no value of another kind) and the agronomist returns a score for each crop.
\<close>

theorem analyze_unknown_soil_uses_default:
  assumes soil: "map_of data ''soil'' = Some (JStr soil)"
      and unknown: "soil \<notin> {''Clay'', ''Loamy'', ''Sandy''}"
      and loc: "dict_get data ''location'' (JStr ''Jenin'') = JStr loc"
      and ph: "py_float parse (dict_get data ''ph'' (JFloat (65 / 10))) = Inr ph"
      and climate: "get_seasonal_forecast capitalize current_month u loc = Inr climate"
      and scorer: "\<forall>c \<in> set CROPS_LIST. \<exists>s. predict loc c 50 50 50 ph climate = Inr s"
  shows "chem_profile_of (JStr soil) = Inr \<lparr>npk_n = 50, npk_p = 50, npk_k = 50\<rparr>
         \<and> (\<exists>crops. analyze capitalize parse predict current_month u (JObj data)
                      = AnalyzeOk crops climate
               \<and> length crops = 7
               \<and> mset (map crop_name crops) = mset CROPS_LIST
               \<and> (\<forall>r \<in> set crops. \<exists>s.
                     predict loc (crop_name r) 50 50 50 ph climate = Inr s
                     \<and> crop_score r = py_round 2 s))"
proof -
  let ?chem = "\<lparr>npk_n = 50, npk_p = 50, npk_k = 50\<rparr>"
  have chem: "chem_profile_of (JStr soil) = Inr ?chem"
    using unknown by (rule chem_profile_unknown)
  from soil have nonempty: "data \<noteq> []" by auto
  from soil have st: "dict_get data ''soil'' (JStr ''Loamy'') = JStr soil"
    by (simp add: dict_get_def)
  from scorer obtain results where
    res: "score_crops predict loc ?chem ph climate CROPS_LIST = Inr results"
      "map crop_name results = CROPS_LIST"
      "\<forall>r \<in> set results. \<exists>s.
          predict loc (crop_name r) 50 50 50 ph climate = Inr s
          \<and> crop_score r = py_round 2 s \<and> crop_status r = status_of s"
    using score_crops_ok [of CROPS_LIST predict loc ?chem ph climate] by auto
  let ?sorted = "sort_key (\<lambda>r. - crop_score r) results"
  have body: "analyze_body capitalize parse predict current_month u (JObj data)
                = Inr (?sorted, climate)"
    using nonempty st loc ph climate chem res(1)
    by (simp add: analyze_body_def Let_def del: chem_profile_of.simps)
  have resp: "analyze capitalize parse predict current_month u (JObj data)
                = AnalyzeOk ?sorted climate"
    by (simp add: analyze_def body)
  have ms: "mset (map crop_name ?sorted) = mset CROPS_LIST"
    using res(2) by (metis mset_map mset_sort)
  have len: "length ?sorted = 7"
    using arg_cong [OF res(2), of length] by (simp add: CROPS_LIST_def)
  have each: "\<forall>r \<in> set ?sorted. \<exists>s.
                 predict loc (crop_name r) 50 50 50 ph climate = Inr s \<and> crop_score r = py_round 2 s"
    using res(3) by auto
  from chem resp ms len each show ?thesis by blast
qed

theorem analyze_unknown_soil_uses_default_witness:
  "\<exists>crops climate.
     analyze (\<lambda>s. s) (\<lambda>s. None) (\<lambda>loc c pn pp pk ph fc. Inr 80) 7 1
       (JObj [(''soil'', JStr ''Peat'')])
       = AnalyzeOk crops climate
     \<and> length crops = 7
     \<and> mset (map crop_name crops) = mset CROPS_LIST
     \<and> chem_profile_of (JStr ''Peat'') = Inr \<lparr>npk_n = 50, npk_p = 50, npk_k = 50\<rparr>"
proof -
  obtain climate where c: "get_seasonal_forecast (\<lambda>s. s) 7 1 ''Jenin'' = Inr climate"
    using forecast_total by blast
  have s: "map_of [(''soil'', JStr ''Peat'')] ''soil'' = Some (JStr ''Peat'')"
    by simp
  have u: "''Peat'' \<notin> {''Clay'', ''Loamy'', ''Sandy''}"
    by simp
  have l: "dict_get [(''soil'', JStr ''Peat'')] ''location'' (JStr ''Jenin'') = JStr ''Jenin''"
    by (simp add: dict_get_def)
  have f: "py_float (\<lambda>s. None) (dict_get [(''soil'', JStr ''Peat'')] ''ph'' (JFloat (65 / 10)))
             = Inr (65 / 10)"
    by (simp add: dict_get_def)
  have p: "\<forall>c \<in> set CROPS_LIST. \<exists>s.
             (\<lambda>loc c pn pp pk ph fc. Inr (80 :: real) :: py_error + real)
               ''Jenin'' c 50 50 50 (65 / 10) climate = Inr s"
    by simp
  from analyze_unknown_soil_uses_default [OF s u l f c p] show ?thesis
    by blast
qed

subsection \<open>The confidence of \<open>/api/optimize\<close>\<close>

lemma randint_range: "a \<le> b \<Longrightarrow> a \<le> randint a b raw \<and> randint a b raw \<le> b"
  by (simp add: randint_def) (smt (verit) pos_mod_bound pos_mod_sign)

lemma optimize_confidence:
  assumes "optimize run_sa raw = OptimizeOk resp"
  shows "confidence resp = str_int (randint 94 99 raw) @ ''%''"
  using assms
  by (auto simp add: optimize_def Let_def split: sum.splits prod.splits if_splits)

lemma residue_block:
  assumes "0 < m" and "j < m"
  shows "{r :: nat. r < m * b \<and> r mod m = j} = (\<lambda>q. q * m + j) ` {..<b}"
proof (intro set_eqI iffI)
  fix r
  assume "r \<in> {r. r < m * b \<and> r mod m = j}"
  then have lt: "r < m * b" and md: "r mod m = j" by simp_all
  from lt assms(1) have "r div m < b"
    by (simp add: less_mult_imp_div_less mult.commute)
  moreover have "r = (r div m) * m + j"
    using md by (metis div_mult_mod_eq)
  ultimately show "r \<in> (\<lambda>q. q * m + j) ` {..<b}" by blast
next
  fix r
  assume "r \<in> (\<lambda>q. q * m + j) ` {..<b}"
  then obtain q where q: "q < b" and r: "r = q * m + j" by auto
  from q have "Suc q \<le> b" by simp
  then have "Suc q * m \<le> b * m" by (rule mult_le_mono1)
  with assms(2) have "q * m + j < m * b" by (simp add: mult.commute)
  moreover have "(q * m + j) mod m = j" using assms(2) by simp
  ultimately show "r \<in> {r. r < m * b \<and> r mod m = j}" by (simp add: r)
qed

lemma residue_block_card:
  assumes "0 < m" and "j < m"
  shows "card {r :: nat. r < m * b \<and> r mod m = j} = b"
proof -
  have "inj_on (\<lambda>q. q * m + j) {..<b}"
    using assms(1) by (auto simp add: inj_on_def)
  then have "card ((\<lambda>q. q * m + j) ` {..<b}) = b"
    by (simp add: card_image)
  then show ?thesis by (simp add: residue_block [OF assms])
qed

lemma randint_confidence_uniform:
  assumes "v \<in> {94..99}"
  shows "card {raw. raw < 6 * b \<and> randint 94 99 raw = v} = b"
proof -
  let ?j = "nat (v - 94)"
  from assms have j: "?j < 6" by (simp add: nat_less_iff)
  have "{raw. raw < 6 * b \<and> randint 94 99 raw = v} = {r. r < 6 * b \<and> r mod 6 = ?j}"
  proof (intro set_eqI)
    fix raw :: nat
    have "int raw mod 6 = int (raw mod 6)" by (simp add: zmod_int)
    then have "(94 + int raw mod 6 = v) = (raw mod 6 = ?j)"
      using assms by (auto simp add: nat_eq_iff)
    then show "(raw \<in> {raw. raw < 6 * b \<and> randint 94 99 raw = v})
                 = (raw \<in> {r. r < 6 * b \<and> r mod 6 = ?j})"
      by (simp add: randint_def)
  qed
  then show ?thesis using residue_block_card [of 6 ?j b] j by simp
qed

lemma randint_onto:
  assumes "a \<le> v" and "v \<le> b"
  shows "randint a b (nat (v - a)) = v"
  using assms by (simp add: randint_def)

text \<open>
  Claim C1. Whenever the handler answers with a payload, its confidence is the decimal
  text of the integer that \<open>random.randint(94, 99)\<close> draws, followed by a percent sign.
  The integer lies between 94 and 99. The draw is uniform: each of the six values is
  drawn for some output of the generator, and among the generator's outputs below
  \<open>6 * b\<close> exactly \<open>b\<close> give each value, one sixth of them, for every \<open>b\<close>.
  The confidence is the same for every optimizer outcome (allocation, heatmap) under the
  same draw: nothing of the optimizer's result, its energy or score, enters it.
\<close>

theorem confidence_is_independent_draw:
  assumes "optimize run_sa raw = OptimizeOk resp"
  shows "confidence resp = str_int (randint 94 99 raw) @ ''%''
         \<and> 94 \<le> randint 94 99 raw \<and> randint 94 99 raw \<le> 99
         \<and> (\<forall>run_sa' resp'. optimize run_sa' raw = OptimizeOk resp'
               \<longrightarrow> confidence resp' = confidence resp)
         \<and> (\<forall>v \<in> {94..99}. \<exists>raw'. randint 94 99 raw' = v)
         \<and> (\<forall>b. \<forall>v \<in> {94..99}. card {raw'. raw' < 6 * b \<and> randint 94 99 raw' = v} = b)"
proof -
  have c: "confidence resp = str_int (randint 94 99 raw) @ ''%''"
    using assms by (rule optimize_confidence)
  have r: "94 \<le> randint 94 99 raw \<and> randint 94 99 raw \<le> 99"
    by (rule randint_range) simp
  have i: "\<forall>run_sa' resp'. optimize run_sa' raw = OptimizeOk resp'
               \<longrightarrow> confidence resp' = confidence resp"
    using c optimize_confidence by metis
  have s: "\<forall>v \<in> {94..99}. \<exists>raw'. randint 94 99 raw' = v"
  proof
    fix v :: int
    assume "v \<in> {94..99}"
    then have "randint 94 99 (nat (v - 94)) = v"
      by (simp add: randint_onto)
    then show "\<exists>raw'. randint 94 99 raw' = v" ..
  qed
  have u: "\<forall>b. \<forall>v \<in> {94..99}. card {raw'. raw' < 6 * b \<and> randint 94 99 raw' = v} = b"
    by (simp add: randint_confidence_uniform)
  from c r i s u show ?thesis by blast
qed

theorem confidence_is_independent_draw_witness:
  "optimize (\<lambda>fs d. Inr ([(0, ''Wheat'')], 7 :: nat)) 8 =
      OptimizeOk \<lparr>assigned_crop = ''Wheat'', confidence = ''96%'', heatmap = 7\<rparr>
   \<and> randint 94 99 8 = 96
   \<and> (\<exists>raw'. randint 94 99 raw' = 99)
   \<and> card {raw'. raw' < 6 * 5 \<and> randint 94 99 raw' = 97} = 5"
proof -
  have d: "str_int 96 = ''96''"
    by (simp add: str_int_def)
  have o: "optimize (\<lambda>fs d. Inr ([(0, ''Wheat'')], 7 :: nat)) 8 =
      OptimizeOk \<lparr>assigned_crop = ''Wheat'', confidence = ''96%'', heatmap = 7\<rparr>"
    by (simp add: optimize_def Let_def dict_item_def randint_def d)
  have r: "randint 94 99 8 = 96"
    by (simp add: randint_def)
  from confidence_is_independent_draw [OF o]
  have a: "\<forall>v \<in> {94..99}. \<exists>raw'. randint 94 99 raw' = v"
    and u: "\<forall>b. \<forall>v \<in> {94..99}. card {raw'. raw' < 6 * b \<and> randint 94 99 raw' = v} = b"
    by blast+
  from a have e: "\<exists>raw'. randint 94 99 raw' = 99" by simp
  have "(97 :: int) \<in> {94..99}" by simp
  with u have "card {raw'. raw' < 6 * 5 \<and> randint 94 99 raw' = 97} = 5" by blast
  with o r e show ?thesis by blast
qed

section \<open>Properties of the allocation optimizer\<close>

subsection \<open>The incremental energy\<close>

lemma sum_list_map_update:
  fixes g :: "'a \<Rightarrow> real"
  assumes "i < length xs"
  shows "sum_list (map g (xs[i := y])) = sum_list (map g xs) - g (xs ! i) + g y"
  using assms
proof (induction xs arbitrary: i)
  case Nil
  then show ?case by simp
next
  case (Cons x xs)
  then show ?case by (cases i) simp_all
qed

lemma sum_list_fun_upd_notin:
  fixes h :: "'a \<Rightarrow> real"
  assumes "a \<notin> set cs"
  shows "sum_list (map (h(a := v)) cs) = sum_list (map h cs)"
  using assms by (induction cs) auto

lemma sum_list_fun_upd_distinct:
  fixes h :: "'a \<Rightarrow> real"
  assumes "distinct cs" and "a \<in> set cs"
  shows "sum_list (map (h(a := v)) cs) = sum_list (map h cs) - h a + v"
  using assms
proof (induction cs)
  case Nil
  then show ?case by simp
next
  case (Cons c cs)
  show ?case
  proof (cases "c = a")
    case True
    with Cons.prems have "a \<notin> set cs" by simp
    then have "sum_list (map (h(a := v)) cs) = sum_list (map h cs)"
      by (rule sum_list_fun_upd_notin)
    then show ?thesis using True by (simp add: fun_upd_same del: fun_upd_apply)
  next
    case False
    with Cons show ?thesis by simp
  qed
qed

lemma produced_alt:
  "producedByCrop asg c = sum_list (map (\<lambda>(f, cr). if cr = c then capacity_of f else 0) asg)"
  unfolding producedByCrop_def by (induction asg) auto

lemma produced_update:
  assumes "i < length asg" and "asg ! i = (f, old)" and "new \<noteq> old"
  shows "producedByCrop (asg[i := (f, new)]) =
           (producedByCrop asg)(old := producedByCrop asg old - capacity_of f,
                                new := producedByCrop asg new + capacity_of f)"
proof
  fix c
  have "producedByCrop (asg[i := (f, new)]) c =
          producedByCrop asg c - (if old = c then capacity_of f else 0)
            + (if new = c then capacity_of f else 0)"
    using assms(1,2) by (simp add: produced_alt sum_list_map_update)
  then show "producedByCrop (asg[i := (f, new)]) c =
           ((producedByCrop asg)(old := producedByCrop asg old - capacity_of f,
                                new := producedByCrop asg new + capacity_of f)) c"
    using assms(3) by auto
qed

lemma demandTerm_update:
  assumes "i < length asg" and "asg ! i = (f, old)" and "new \<noteq> old"
      and "old \<in> set (crops_of demand)" and "new \<in> set (crops_of demand)"
  shows "demandTerm demand (asg[i := (f, new)]) =
           demandTerm demand asg
           + (((producedByCrop asg old - capacity_of f - target demand old)\<^sup>2
                - (producedByCrop asg old - target demand old)\<^sup>2)
              + ((producedByCrop asg new + capacity_of f - target demand new)\<^sup>2
                - (producedByCrop asg new - target demand new)\<^sup>2))"
proof -
  let ?P = "producedByCrop asg"
  let ?t = "target demand"
  let ?D = "\<lambda>c. (?P c - ?t c)\<^sup>2"
  let ?cs = "crops_of demand"
  have d: "distinct ?cs" by (simp add: crops_of_def)
  have eq: "(\<lambda>c. (producedByCrop (asg[i := (f, new)]) c - ?t c)\<^sup>2) =
              (?D(old := (?P old - capacity_of f - ?t old)\<^sup>2))
                (new := (?P new + capacity_of f - ?t new)\<^sup>2)"
    using assms(3) by (auto simp add: produced_update [OF assms(1,2,3)] fun_eq_iff)
  have "demandTerm demand (asg[i := (f, new)]) =
          sum_list (map ((?D(old := (?P old - capacity_of f - ?t old)\<^sup>2))
                (new := (?P new + capacity_of f - ?t new)\<^sup>2)) ?cs)"
    by (simp add: demandTerm_def eq)
  also have "\<dots> = sum_list (map (?D(old := (?P old - capacity_of f - ?t old)\<^sup>2)) ?cs)
                  - (?D(old := (?P old - capacity_of f - ?t old)\<^sup>2)) new
                  + (?P new + capacity_of f - ?t new)\<^sup>2"
    using d assms(5) by (rule sum_list_fun_upd_distinct)
  also have "sum_list (map (?D(old := (?P old - capacity_of f - ?t old)\<^sup>2)) ?cs) =
               sum_list (map ?D ?cs) - ?D old + (?P old - capacity_of f - ?t old)\<^sup>2"
    using d assms(4) by (rule sum_list_fun_upd_distinct)
  finally show ?thesis using assms(3) by (simp add: demandTerm_def)
qed

lemma infeasibilityTerm_update:
  assumes "i < length asg" and "asg ! i = (f, old)"
  shows "infeasibilityTerm scorer (asg[i := (f, new)]) =
           infeasibilityTerm scorer asg
           + ((100 - feasibility scorer f new) - (100 - feasibility scorer f old))"
  using assms by (simp add: infeasibilityTerm_def sum_list_map_update)

lemma energy_update:
  assumes "i < length asg" and "asg ! i = (f, old)" and "new \<noteq> old"
      and "old \<in> set (crops_of demand)" and "new \<in> set (crops_of demand)"
  shows "energy lam demand scorer (asg[i := (f, new)]) =
           energy lam demand scorer asg
           + energy_delta lam demand scorer (producedByCrop asg) f old new"
  by (simp add: energy_def energy_delta_def Let_def demandTerm_update [OF assms]
        infeasibilityTerm_update [OF assms(1,2)] algebra_simps)

subsection \<open>The invariant\<close>

lemma pick_in_set: "xs \<noteq> [] \<Longrightarrow> pick raw xs \<in> set xs"
  by (simp add: pick_def)

lemma other_crop_exists:
  assumes "2 \<le> length (crops_of demand)"
  shows "filter (\<lambda>c. c \<noteq> old) (crops_of demand) \<noteq> []"
proof -
  have d: "distinct (crops_of demand)" by (simp add: crops_of_def)
  show ?thesis
  proof
    assume "filter (\<lambda>c. c \<noteq> old) (crops_of demand) = []"
    then have "\<forall>c \<in> set (crops_of demand). c = old"
      by (simp add: filter_empty_conv)
    then have "set (crops_of demand) \<subseteq> {old}" by auto
    then have "card (set (crops_of demand)) \<le> 1"
      by (metis card.empty card.insert card_mono empty_iff finite.emptyI finite.insertI
            One_nat_def)
    with d assms show False by (simp add: distinct_card)
  qed
qed

lemma pick_other_crop:
  assumes "2 \<le> length (crops_of demand)"
  shows "pick raw (filter (\<lambda>c. c \<noteq> old) (crops_of demand)) \<noteq> old
         \<and> pick raw (filter (\<lambda>c. c \<noteq> old) (crops_of demand)) \<in> set (crops_of demand)"
  using pick_in_set [OF other_crop_exists [OF assms], of raw old] by auto

lemma map_fst_update:
  assumes "i < length asg" and "asg ! i = (f, old)"
  shows "map fst (asg[i := (f, new)]) = map fst asg"
  using assms by (simp add: map_update) (metis fst_conv list_update_id nth_map length_map)

lemma snd_set_update:
  assumes "snd ` set asg \<subseteq> C" and "new \<in> C"
  shows "snd ` set (asg[i := (f, new)]) \<subseteq> C"
proof -
  have "set (asg[i := (f, new)]) \<subseteq> insert (f, new) (set asg)"
    by (rule set_update_subset_insert)
  with assms show ?thesis by fastforce
qed

lemma step_preserves_inv:
  assumes inv: "engine_inv (infeasibilityWeight cfg) demand scorer farmers e0 s"
      and ne: "farmers \<noteq> []"
      and two: "2 \<le> length (crops_of demand)"
  shows "engine_inv (infeasibilityWeight cfg) demand scorer farmers e0
           (step draws scorer demand cfg s)"
proof -
  let ?lam = "infeasibilityWeight cfg"
  let ?asg = "assignment s"
  let ?pos = "draws_used s"
  let ?i = "draws ?pos mod length ?asg"
  obtain f old where fo: "?asg ! ?i = (f, old)" by (cases "?asg ! ?i")
  let ?new = "pick (draws (?pos + 1)) (filter (\<lambda>c. c \<noteq> old) (crops_of demand))"
  let ?dE = "energy_delta ?lam demand scorer (produced s) f old ?new"
  let ?asg' = "?asg[?i := (f, ?new)]"
  from inv have "map fst ?asg = farmers"
    by (simp add: engine_inv_def)
  then have "length (map fst ?asg) = length farmers"
    by (rule arg_cong)
  then have len: "length ?asg = length farmers"
    by simp
  with ne have i: "?i < length ?asg" by simp
  from inv have sub: "snd ` set ?asg \<subseteq> set (crops_of demand)"
    by (simp add: engine_inv_def)
  have "(f, old) \<in> set ?asg" using i fo by (metis nth_mem)
  with sub have old: "old \<in> set (crops_of demand)" by force
  from pick_other_crop [OF two] have new: "?new \<noteq> old" "?new \<in> set (crops_of demand)"
    by auto
  from inv have P: "produced s = producedByCrop ?asg" by (simp add: engine_inv_def)
  have e: "energy ?lam demand scorer ?asg' = energy ?lam demand scorer ?asg + ?dE"
    using energy_update [OF i fo new(1) old new(2)] by (simp add: P)
  have p: "producedByCrop ?asg' =
             (produced s)(old := produced s old - capacity_of f,
                          ?new := produced s ?new + capacity_of f)"
    using produced_update [OF i fo new(1)] by (simp add: P)
  have m: "map fst ?asg' = farmers"
    using map_fst_update [OF i fo] inv by (simp add: engine_inv_def)
  have c: "snd ` set ?asg' \<subseteq> set (crops_of demand)"
    using sub new(2) by (rule snd_set_update)
  show ?thesis
    using inv e p m c
    by (simp add: step_def Let_def fo engine_inv_def)
qed

lemma cool_preserves_inv:
  "engine_inv lam demand scorer farmers e0 s \<Longrightarrow>
   engine_inv lam demand scorer farmers e0 (cool cfg s)"
  by (simp add: engine_inv_def cool_def)

lemma loop_preserves_inv:
  assumes "engine_inv (infeasibilityWeight cfg) demand scorer farmers e0 s"
      and "farmers \<noteq> []"
      and "2 \<le> length (crops_of demand)"
  shows "engine_inv (infeasibilityWeight cfg) demand scorer farmers e0
           (anneal_loop draws scorer demand cfg remaining s)"
  using assms
proof (induction remaining arbitrary: s)
  case 0
  then show ?case by simp
next
  case (Suc remaining)
  show ?case
  proof (cases "temperature s < temperatureFloor cfg")
    case True
    with Suc.prems show ?thesis by simp
  next
    case False
    have "engine_inv (infeasibilityWeight cfg) demand scorer farmers e0
            (cool cfg (step draws scorer demand cfg s))"
      using Suc.prems by (intro cool_preserves_inv step_preserves_inv)
    from Suc.IH [OF this Suc.prems(2,3)] False show ?thesis by simp
  qed
qed

lemma initial_assignment_fst: "map fst (initial_assignment draws crops farmers) = farmers"
proof -
  have "map fst (initial_assignment draws crops farmers) = map snd (enumerate 0 farmers)"
    by (simp add: initial_assignment_def case_prod_unfold o_def)
  then show ?thesis by simp
qed

lemma initial_assignment_snd:
  assumes "crops \<noteq> []"
  shows "snd ` set (initial_assignment draws crops farmers) \<subseteq> set crops"
  using pick_in_set [OF assms] by (auto simp add: initial_assignment_def)

lemma initial_state_inv:
  assumes "2 \<le> length (crops_of demand)"
  shows "engine_inv (infeasibilityWeight cfg) demand scorer farmers
           (energy (infeasibilityWeight cfg) demand scorer
              (initial_assignment draws (crops_of demand) farmers))
           (initial_state draws scorer farmers demand cfg)"
proof -
  from assms have "crops_of demand \<noteq> []" by auto
  then show ?thesis
    by (simp add: engine_inv_def initial_state_def Let_def initial_assignment_fst
          initial_assignment_snd)
qed

lemma validate_None:
  assumes "validate farmers demand = None"
  shows "farmers \<noteq> []" and "2 \<le> length (crops_of demand)"
  using assms by (auto simp add: validate_def split: if_splits)

lemma anneal_Inr:
  assumes "anneal gen scorer farmers demand cfg = Inr b"
  shows "\<exists>s. engine_inv (infeasibilityWeight cfg) demand scorer farmers
                (energy (infeasibilityWeight cfg) demand scorer
                   (initial_assignment (gen (seed cfg)) (crops_of demand) farmers)) s
             \<and> b = best s"
proof -
  from assms have v: "validate farmers demand = None"
    by (simp add: anneal_def split: option.splits)
  let ?s = "anneal_loop (gen (seed cfg)) scorer demand cfg (maxIterations cfg)
              (initial_state (gen (seed cfg)) scorer farmers demand cfg)"
  from assms v have b: "b = best ?s" by (simp add: anneal_def Let_def)
  have "engine_inv (infeasibilityWeight cfg) demand scorer farmers
                (energy (infeasibilityWeight cfg) demand scorer
                   (initial_assignment (gen (seed cfg)) (crops_of demand) farmers)) ?s"
    using validate_None [OF v] by (intro loop_preserves_inv initial_state_inv)
  with b show ?thesis by blast
qed

subsection \<open>The results of a run\<close>

lemma mset_filter_split:
  assumes "c \<notin> S"
  shows "mset (map h (filter (\<lambda>x. snd x \<in> insert c S) asg)) =
           mset (map h (filter (\<lambda>x. snd x = c) asg)) + mset (map h (filter (\<lambda>x. snd x \<in> S) asg))"
  using assms by (induction asg) auto

lemma mset_grouped:
  assumes "distinct cs"
  shows "mset (concat (map (\<lambda>c. map h (filter (\<lambda>x. snd x = c) asg)) cs)) =
           mset (map h (filter (\<lambda>x. snd x \<in> set cs) asg))"
  using assms
proof (induction cs)
  case Nil
  show ?case by simp
next
  case (Cons c cs)
  then have "c \<notin> set cs" and "distinct cs" by simp_all
  with Cons.IH mset_filter_split [of c "set cs" h asg] show ?case by simp
qed

lemma summary_farmers:
  assumes "snd ` set asg \<subseteq> set crops" and "distinct crops"
  shows "mset (concat (map snd (allocation_summary crops asg))) = mset (map (\<lambda>x. fid (fst x)) asg)"
proof -
  have s: "map snd (allocation_summary crops asg) =
             map (\<lambda>c. map (\<lambda>x. fid (fst x)) (filter (\<lambda>x. snd x = c) asg)) (sort crops)"
    by (simp add: allocation_summary_def case_prod_unfold o_def)
  have d: "distinct (sort crops)" using assms(2) by simp
  have f: "filter (\<lambda>x. snd x \<in> set (sort crops)) asg = asg"
    using assms(1) by (auto simp add: filter_id_conv)
  have "mset (concat (map snd (allocation_summary crops asg))) =
          mset (map (\<lambda>x. fid (fst x)) (filter (\<lambda>x. snd x \<in> set (sort crops)) asg))"
    unfolding s using d by (rule mset_grouped)
  then show ?thesis by (simp only: f)
qed

lemma heatmap_rows: "map fst (heatmap_of crops asg) = map (\<lambda>x. fid (fst x)) asg"
  by (simp add: heatmap_of_def case_prod_unfold o_def)

text \<open>
  Claim C3. When the optimizer returns, the farmers listed in the allocation summary are
  those of the input cluster, each as often as it is in the cluster: none is missing, and,
  the identifiers of the cluster being distinct, none is listed twice. The heatmap has one
  row for each farmer, and the best snapshot behind both assigns a crop to every farmer of
  the cluster: no partial assignment is returned.
\<close>

theorem every_farmer_assigned_once:
  assumes "run_simulated_annealing gen scorer farmers demand cfg = Inr (summary, hm)"
  shows "mset (concat (map snd summary)) = mset (map fid farmers)
         \<and> (distinct (map fid farmers) \<longrightarrow> distinct (concat (map snd summary)))
         \<and> map fst hm = map fid farmers
         \<and> (\<exists>b. anneal gen scorer farmers demand cfg = Inr b
                \<and> map fst (snap_assignment b) = farmers)"
proof -
  from assms obtain b where b: "anneal gen scorer farmers demand cfg = Inr b"
    and s: "summary = allocation_summary (crops_of demand) (snap_assignment b)"
    and h: "hm = heatmap_of (crops_of demand) (snap_assignment b)"
    by (auto simp add: run_simulated_annealing_def split: sum.splits)
  from anneal_Inr [OF b] have m: "map fst (snap_assignment b) = farmers"
    and c: "snd ` set (snap_assignment b) \<subseteq> set (crops_of demand)"
    by (auto simp add: engine_inv_def)
  have ids: "map (\<lambda>x. fid (fst x)) (snap_assignment b) = map fid farmers"
    using arg_cong [OF m, of "map fid"] by (simp add: o_def)
  have d: "distinct (crops_of demand)" by (simp add: crops_of_def)
  have ms: "mset (concat (map snd summary)) = mset (map fid farmers)"
    using summary_farmers [OF c d] by (simp add: s ids)
  have di: "distinct (map fid farmers) \<longrightarrow> distinct (concat (map snd summary))"
    using ms by (metis mset_eq_imp_distinct_iff)
  have hr: "map fst hm = map fid farmers"
    by (simp add: h heatmap_rows ids)
  from ms di hr b m show ?thesis by blast
qed

text \<open>
  Claim C4. For a run with at least one iteration, the energy of the returned best
  snapshot is at most the energy of the initial random state; the energy recorded in the
  snapshot, kept up to date by the incremental deltas, is the energy function's value on
  the snapshot's assignment.
\<close>

theorem best_energy_le_initial:
  assumes "anneal gen scorer farmers demand cfg = Inr b"
      and "1 \<le> maxIterations cfg"
  shows "energy (infeasibilityWeight cfg) demand scorer (snap_assignment b)
           \<le> energy (infeasibilityWeight cfg) demand scorer
                (initial_assignment (gen (seed cfg)) (crops_of demand) farmers)
         \<and> snap_energy b = energy (infeasibilityWeight cfg) demand scorer (snap_assignment b)"
  using anneal_Inr [OF assms(1)] by (auto simp add: engine_inv_def)

text \<open>
  Claim C6. With an empty farmer set the optimizer fails with \<open>EmptyClusterError\<close>,
  whatever the demand map, the generator, the scorer and the configuration are: neither
  a snapshot nor a summary or heatmap is returned, and the search is not entered.
\<close>

theorem empty_cluster_error:
  "anneal gen scorer [] demand cfg = Inl EmptyClusterError
   \<and> run_simulated_annealing gen scorer [] demand cfg = Inl EmptyClusterError"
  by (simp add: run_simulated_annealing_def anneal_def validate_def)

lemma produced_le_total:
  assumes "\<forall>x \<in> set asg. 0 \<le> capacity_of (fst x)"
  shows "producedByCrop asg c \<le> sum_list (map capacity_of (map fst asg))"
  using assms unfolding producedByCrop_def by (induction asg) auto

lemma route_crops: "crops_of route_demand = [''Tomato'', ''Wheat'', ''Olive'']"
  by (simp add: crops_of_def route_demand_def)

lemma route_capacity: "sum_list (map capacity_of route_farmers) = 10"
  by (simp add: route_farmers_def capacity_of_def o_def sum_list_triv)

lemma route_validate: "validate route_farmers route_demand = None"
  by (simp add: validate_def route_crops) (simp add: route_farmers_def route_demand_def)

lemma route_demandTerm_pos:
  assumes "map fst asg = route_farmers"
  shows "0 < demandTerm route_demand asg"
proof -
  have "\<forall>f \<in> set route_farmers. capacity_of f = 1"
    by (auto simp add: route_farmers_def capacity_of_def)
  then have "\<forall>x \<in> set asg. 0 \<le> capacity_of (fst x)"
    using assms by (metis (no_types, lifting) image_eqI list.set_map zero_le_one)
  from produced_le_total [OF this, of "''Tomato''"]
  have le: "producedByCrop asg ''Tomato'' \<le> 10"
    by (simp add: assms route_capacity)
  have t: "target route_demand ''Tomato'' = 20"
    by (simp add: target_def dict_get_def route_demand_def)
  from le have a: "0 < (producedByCrop asg ''Tomato'' - 20)\<^sup>2" by simp
  have b: "0 \<le> (producedByCrop asg ''Wheat'' - target route_demand ''Wheat'')\<^sup>2" by simp
  have c: "0 \<le> (producedByCrop asg ''Olive'' - target route_demand ''Olive'')\<^sup>2" by simp
  have "demandTerm route_demand asg =
          (producedByCrop asg ''Tomato'' - 20)\<^sup>2
          + ((producedByCrop asg ''Wheat'' - target route_demand ''Wheat'')\<^sup>2
             + (producedByCrop asg ''Olive'' - target route_demand ''Olive'')\<^sup>2)"
    by (simp add: demandTerm_def route_crops t)
  with a b c show ?thesis by linarith
qed

text \<open>
  Claim C5. On the input of the \<open>/api/optimize\<close> route (ten farmers of one unit,
  demand 20, 15 and 15), for every generator, scorer and configuration, the optimizer
  returns: the validation passes, the best snapshot assigns a crop to each of the ten
  farmers, the summary and the heatmap are built from it, and its demand term is
  strictly positive.
\<close>

theorem oversubscribed_route_input:
  "\<exists>b. anneal gen scorer route_farmers route_demand cfg = Inr b
       \<and> run_simulated_annealing gen scorer route_farmers route_demand cfg =
           Inr (allocation_summary (crops_of route_demand) (snap_assignment b),
                heatmap_of (crops_of route_demand) (snap_assignment b))
       \<and> map fst (snap_assignment b) = route_farmers
       \<and> 0 < demandTerm route_demand (snap_assignment b)"
proof -
  obtain b where b: "anneal gen scorer route_farmers route_demand cfg = Inr b"
    by (simp add: anneal_def route_validate Let_def)
  from anneal_Inr [OF b] have m: "map fst (snap_assignment b) = route_farmers"
    by (auto simp add: engine_inv_def)
  from b m route_demandTerm_pos [OF m] show ?thesis
    by (simp add: run_simulated_annealing_def)
qed

subsection \<open>The example run\<close>

lemma demo_crops: "crops_of demo_demand = [''A'', ''B'']"
  by (simp add: crops_of_def demo_demand_def)

lemma demo_validate: "validate demo_farmers demo_demand = None"
  by (simp add: validate_def demo_crops) (simp add: demo_farmers_def demo_demand_def)

lemma demo_initial:
  "initial_assignment (\<lambda>i. 0) [''A'', ''B''] demo_farmers =
     [(\<lparr>fid = 3, capacity = None\<rparr>, ''A''), (\<lparr>fid = 8, capacity = None\<rparr>, ''A'')]"
  by (simp add: initial_assignment_def demo_farmers_def pick_def enumerate_eq_zip upt_rec)

lemma demo_targets: "target demo_demand ''A'' = 0" "target demo_demand ''B'' = 2"
  by (simp_all add: target_def dict_get_def demo_demand_def)

lemma demo_energy0:
  "energy 1 demo_demand (\<lambda>f c. Some 100)
     [(\<lparr>fid = 3, capacity = None\<rparr>, ''A''), (\<lparr>fid = 8, capacity = None\<rparr>, ''A'')] = 8"
  by (simp add: energy_def demandTerm_def infeasibilityTerm_def demo_crops demo_targets
        producedByCrop_def capacity_of_def feasibility_def)

lemma demo_anneal:
  "anneal (\<lambda>sd i. 0) (\<lambda>f c. Some 100) demo_farmers demo_demand demo_config =
     Inr \<lparr>snap_assignment =
           [(\<lparr>fid = 3, capacity = None\<rparr>, ''B''), (\<lparr>fid = 8, capacity = None\<rparr>, ''A'')],
          snap_energy = 2\<rparr>"
  by (simp add: anneal_def demo_validate Let_def initial_state_def demo_crops demo_initial
        demo_energy0 numeral_2_eq_2 step_def cool_def energy_delta_def accepts_def
        uniform01_def pick_def demo_targets producedByCrop_def capacity_of_def feasibility_def
        demo_config_def)

lemma sort_AB: "sort [''A'', ''B''] = [''A'', ''B'']"
  by code_simp

lemma demo_run:
  "run_simulated_annealing (\<lambda>sd i. 0) (\<lambda>f c. Some 100) demo_farmers demo_demand demo_config =
     Inr ([(''A'', [8]), (''B'', [3])],
          [(3, [(''A'', 0), (''B'', 1)]), (8, [(''A'', 1), (''B'', 0)])])"
  by (simp add: run_simulated_annealing_def demo_anneal demo_crops allocation_summary_def
        heatmap_of_def sort_AB del: sort_key_simps)

theorem every_farmer_assigned_once_witness:
  "run_simulated_annealing (\<lambda>sd i. 0) (\<lambda>f c. Some 100) demo_farmers demo_demand demo_config =
     Inr ([(''A'', [8]), (''B'', [3])],
          [(3, [(''A'', 0), (''B'', 1)]), (8, [(''A'', 1), (''B'', 0)])])
   \<and> mset (concat (map snd [(''A'', [8 :: nat]), (''B'', [3])])) = mset (map fid demo_farmers)
   \<and> distinct (map fid demo_farmers)
   \<and> distinct (concat (map snd [(''A'', [8 :: nat]), (''B'', [3])]))"
proof -
  have d: "distinct (map fid demo_farmers)"
    by (simp add: demo_farmers_def)
  from every_farmer_assigned_once [OF demo_run] d demo_run show ?thesis
    by simp
qed

theorem best_energy_le_initial_witness:
  "anneal (\<lambda>sd i. 0) (\<lambda>f c. Some 100) demo_farmers demo_demand demo_config =
     Inr \<lparr>snap_assignment =
           [(\<lparr>fid = 3, capacity = None\<rparr>, ''B''), (\<lparr>fid = 8, capacity = None\<rparr>, ''A'')],
          snap_energy = 2\<rparr>
   \<and> 1 \<le> maxIterations demo_config
   \<and> energy 1 demo_demand (\<lambda>f c. Some 100)
        [(\<lparr>fid = 3, capacity = None\<rparr>, ''B''), (\<lparr>fid = 8, capacity = None\<rparr>, ''A'')] = 2
   \<and> energy 1 demo_demand (\<lambda>f c. Some 100)
        (initial_assignment (\<lambda>i. 0) (crops_of demo_demand) demo_farmers) = 8"
proof -
  have m: "1 \<le> maxIterations demo_config"
    by (simp add: demo_config_def)
  have w: "infeasibilityWeight demo_config = 1"
    by (simp add: demo_config_def)
  from best_energy_le_initial [OF demo_anneal m] demo_anneal m show ?thesis
    by (simp add: w demo_crops demo_initial demo_energy0)
qed

end
